theory Spec2Isabelle
  imports Complex_Main
begin

section \<open>Numbers, rounding and errors\<close>

text \<open>
  The calculators of \<^verbatim>\<open>backend/main.py\<close> work on Python floats. They are embedded
  twice. The exact model of this and the next three sections computes with exact
  rationals: every arithmetic operation of the source is the same operation on
  \<^typ>\<open>rat\<close>, and the only rounding is the rounding the source writes out itself
  (\<^verbatim>\<open>round(x, 2)\<close>, \<^verbatim>\<open>round(x, 10)\<close>, \<^verbatim>\<open>round(x)\<close>). It serves to evaluate the code
  at concrete inputs, which are chosen so that the binary rounding of IEEE doubles does
  not change what is returned. The float model, which follows it, leaves the arithmetic
  of floats open and carries the statements about every input.

  Python's \<^verbatim>\<open>round\<close> rounds to the nearest value and sends an exact tie to the even
  neighbour.
\<close>

definition round_half_even :: "rat \<Rightarrow> int" where
  "round_half_even x =
     (let f = \<lfloor>x\<rfloor>; d = x - of_int f
      in if d < 1 / 2 then f
         else if 1 / 2 < d then f + 1
         else if even f then f else f + 1)"

definition py_round :: "rat \<Rightarrow> nat \<Rightarrow> rat" where
  "py_round x ndigits = of_int (round_half_even (x * 10 ^ ndigits)) / 10 ^ ndigits"

text \<open>
  The failures of the source: \<^verbatim>\<open>float(None)\<close> raises TypeError, a float division by
  zero raises ZeroDivisionError, a float power or the conversion of an integer or an
  infinity raises OverflowError, the conversion of NaN to an integer raises ValueError,
  and the prepay endpoint raises \<^verbatim>\<open>HTTPException(status_code=400, detail=...)\<close>.
\<close>

datatype py_error =
  TypeError | ZeroDivisionError | OverflowError | ValueError | HTTPException nat string

section \<open>Tax calculation\<close>

text \<open>
  A slab is a dictionary \<^verbatim>\<open>Dict[str, Optional[float]]\<close>: a key may be missing, or
  present with the value \<^verbatim>\<open>None\<close>.
\<close>

type_synonym slab = "string \<rightharpoonup> rat option"

text \<open>\<^verbatim>\<open>slab.get("upto")\<close>: a missing key and a stored \<^verbatim>\<open>None\<close> both give \<^verbatim>\<open>None\<close>.\<close>

definition get_upto :: "slab \<Rightarrow> rat option" where
  "get_upto s = (case s ''upto'' of None \<Rightarrow> None | Some v \<Rightarrow> v)"

text \<open>
  \<^verbatim>\<open>float(slab.get("rate", 0.0))\<close>: a missing key gives the default 0.0, a stored
  \<^verbatim>\<open>None\<close> reaches \<^verbatim>\<open>float(None)\<close>, which raises.
\<close>

definition get_rate :: "slab \<Rightarrow> py_error + rat" where
  "get_rate s =
     (case s ''rate'' of
        None \<Rightarrow> Inr 0
      | Some None \<Rightarrow> Inl TypeError
      | Some (Some x) \<Rightarrow> Inr x)"

text \<open>A float that may be \<^verbatim>\<open>float("inf")\<close>: the running \<^verbatim>\<open>cap\<close> and \<^verbatim>\<open>prev_cap\<close>.\<close>

datatype cap = Finite rat | Infinity

definition cap_of :: "rat option \<Rightarrow> cap" where
  "cap_of u = (case u of None \<Rightarrow> Infinity | Some u \<Rightarrow> Finite u)"

text \<open>
  \<^verbatim>\<open>band = max(0.0, min(cap - prev_cap, remaining))\<close> with \<^verbatim>\<open>remaining\<close> finite.
  With floats, \<^verbatim>\<open>inf - p\<close> is \<^verbatim>\<open>inf\<close> and the minimum is \<^verbatim>\<open>remaining\<close>;
  \<^verbatim>\<open>c - inf\<close> is \<^verbatim>\<open>-inf\<close> and the maximum is 0.0; \<^verbatim>\<open>inf - inf\<close> is NaN, which
  \<^verbatim>\<open>min\<close> returns (its first argument, as no comparison with NaN holds) and
  \<^verbatim>\<open>max(0.0, nan)\<close> turns into 0.0.
\<close>

fun band_of :: "cap \<Rightarrow> cap \<Rightarrow> rat \<Rightarrow> rat" where
  "band_of (Finite c) (Finite p) remaining = max 0 (min (c - p) remaining)"
| "band_of Infinity (Finite p) remaining = max 0 remaining"
| "band_of (Finite c) Infinity remaining = 0"
| "band_of Infinity Infinity remaining = 0"

record band_entry =
  band_from :: cap
  band_to :: "rat option"
  taxable :: rat
  rate :: rat
  tax :: rat

record tax_result =
  tax_due :: rat
  breakdown :: "band_entry list"

text \<open>
  The \<^verbatim>\<open>for slab in slabs\<close> loop, with its \<^verbatim>\<open>break\<close>. The state is
  \<^verbatim>\<open>remaining\<close>, \<^verbatim>\<open>prev_cap\<close>, \<^verbatim>\<open>tax\<close> and \<^verbatim>\<open>breakdown\<close>; the loop returns the
  last two.
\<close>

fun tax_loop ::
  "slab list \<Rightarrow> rat \<Rightarrow> cap \<Rightarrow> rat \<Rightarrow> band_entry list \<Rightarrow> py_error + (rat \<times> band_entry list)"
where
  "tax_loop [] remaining prev_cap tx bd = Inr (tx, bd)"
| "tax_loop (s # slabs) remaining prev_cap tx bd =
     (let upto_v = get_upto s in
      case get_rate s of
        Inl e \<Rightarrow> Inl e
      | Inr rt \<Rightarrow>
          (let cp = cap_of upto_v;
               band = band_of cp prev_cap remaining;
               band_tax = band * rt;
               bd' = bd @ [\<lparr>band_from = prev_cap, band_to = upto_v,
                             taxable = py_round band 2, rate = rt,
                             tax = py_round band_tax 2\<rparr>];
               tx' = tx + band_tax;
               remaining' = remaining - band
           in if remaining' \<le> 0 then Inr (tx', bd')
              else tax_loop slabs remaining' cp tx' bd'))"

definition compute_progressive_tax :: "rat \<Rightarrow> slab list \<Rightarrow> py_error + tax_result" where
  "compute_progressive_tax taxable_income slabs =
     (case tax_loop slabs taxable_income (Finite 0) 0 [] of
        Inl e \<Rightarrow> Inl e
      | Inr (tx, bd) \<Rightarrow> Inr \<lparr>tax_due = py_round tx 2, breakdown = bd\<rparr>)"

text \<open>A slab written \<^verbatim>\<open>{"upto": u, "rate": r}\<close>.\<close>

definition mk_slab :: "rat option \<Rightarrow> rat \<Rightarrow> slab" where
  "mk_slab u r = [''upto'' \<mapsto> u, ''rate'' \<mapsto> Some r]"

text \<open>The default table of \<^verbatim>\<open>TaxRequest.slabs\<close>.\<close>

definition default_slabs :: "slab list" where
  "default_slabs =
     [mk_slab (Some 250000) 0, mk_slab (Some 500000) (5 / 100),
      mk_slab (Some 1000000) (20 / 100), mk_slab None (30 / 100)]"

section \<open>Loan amortization\<close>

text \<open>
  \<^verbatim>\<open>base ** e\<close> for a float base and an integer exponent: a zero base with a negative
  exponent raises ZeroDivisionError.
\<close>

definition py_pow :: "rat \<Rightarrow> int \<Rightarrow> py_error + rat" where
  "py_pow b e =
     (if 0 \<le> e then Inr (b ^ nat e)
      else if b = 0 then Inl ZeroDivisionError
      else Inr (1 / b ^ nat (- e)))"

record sched_entry =
  period :: int
  payment :: rat
  principal_paid :: rat
  interest_paid :: rat
  remaining_balance :: rat

record amort_result =
  periods :: int
  payment :: rat
  total_interest :: rat
  schedule :: "sched_entry list"

text \<open>The variables the amortization loop updates.\<close>

record amort_state =
  a_payment :: rat
  a_balance :: rat
  a_total_interest :: rat
  a_schedule :: "sched_entry list"

text \<open>
  The fixed payment, lines 90 to 94: the guard \<^verbatim>\<open>n>0\<close> is in the zero-rate branch
  only; the other branch divides by \<^verbatim>\<open>payments_per_year\<close> and by
  \<^verbatim>\<open>1 - (1+rp)**(-n)\<close>.
\<close>

definition initial_payment :: "rat \<Rightarrow> rat \<Rightarrow> int \<Rightarrow> int \<Rightarrow> py_error + rat" where
  "initial_payment principal_amt r n payments_per_year =
     (if r = 0 then Inr (if 0 < n then principal_amt / of_int n else principal_amt)
      else if payments_per_year = 0 then Inl ZeroDivisionError
      else
        (let rp = r / of_int payments_per_year in
         case py_pow (1 + rp) (- n) of
           Inl e \<Rightarrow> Inl e
         | Inr pw \<Rightarrow>
             if 1 - pw = 0 then Inl ZeroDivisionError
             else Inr (principal_amt * rp / (1 - pw))))"

text \<open>
  One pass of the body of \<^verbatim>\<open>for i in range(1, n+1)\<close>, lines 99 to 117. The loop is
  entered with a nonzero \<^verbatim>\<open>r\<close> only after \<^verbatim>\<open>r / payments_per_year\<close> has been
  computed once at line 93, so the division of line 103 cannot fail.
\<close>

definition amort_step :: "rat \<Rightarrow> int \<Rightarrow> int \<Rightarrow> amort_state \<Rightarrow> amort_state" where
  "amort_step r payments_per_year i st =
     (let interest = (if r = 0 then 0 else a_balance st * (r / of_int payments_per_year));
          principal_pay = (if r = 0 then a_payment st else a_payment st - interest);
          clamp = (a_balance st < principal_pay);
          principal_pay' = (if clamp then a_balance st else principal_pay);
          payment' = (if clamp then principal_pay' + interest else a_payment st);
          balance' = py_round (a_balance st - principal_pay') 10
      in \<lparr>a_payment = payment',
          a_balance = balance',
          a_total_interest = a_total_interest st + interest,
          a_schedule = a_schedule st @
            [\<lparr>period = i,
              payment = py_round payment' 2,
              principal_paid = py_round principal_pay' 2,
              interest_paid = py_round interest 2,
              remaining_balance = py_round (if 0 < balance' then balance' else 0) 2\<rparr>]\<rparr>)"

function amort_loop :: "rat \<Rightarrow> int \<Rightarrow> int \<Rightarrow> int \<Rightarrow> amort_state \<Rightarrow> amort_state" where
  "amort_loop r payments_per_year n i st =
     (if n < i then st
      else
        (let st' = amort_step r payments_per_year i st
         in if a_balance st' \<le> 0 then st'
            else amort_loop r payments_per_year n (i + 1) st'))"
  by pat_completeness auto
termination
  by (relation "measure (\<lambda>(r, payments_per_year, n, i, st). nat (n + 1 - i))") auto

definition amortization_schedule ::
  "rat \<Rightarrow> rat \<Rightarrow> rat \<Rightarrow> int \<Rightarrow> py_error + amort_result"
where
  "amortization_schedule principal_amt annual_rate_pct years payments_per_year =
     (let r = annual_rate_pct / 100;
          n = round_half_even (years * of_int payments_per_year)
      in case initial_payment principal_amt r n payments_per_year of
           Inl e \<Rightarrow> Inl e
         | Inr pay \<Rightarrow>
             (let st = amort_loop r payments_per_year n 1
                         \<lparr>a_payment = pay, a_balance = principal_amt,
                          a_total_interest = 0, a_schedule = []\<rparr>
              in Inr \<lparr>periods = n,
                      payment = py_round (a_payment st) 2,
                      total_interest = py_round (a_total_interest st) 2,
                      schedule = a_schedule st\<rparr>))"

section \<open>Prepay versus invest\<close>

record prepay_scenario =
  principal :: rat
  annual_rate_pct :: rat
  years :: int
  extra_monthly :: rat
  payments_per_year :: int
  invest_rate_pct :: rat
  inflation_pct :: rat

record with_extra_result =
  payment :: rat
  payoff_periods :: int
  total_interest :: rat
  schedule_sample :: "sched_entry list"

record prepay_result =
  base :: amort_result
  with_extra :: with_extra_result
  payoff_months_equivalent :: rat
  interest_saved :: rat
  invest_future_value_of_extra :: rat
  advice :: string

text \<open>The variables the \<^verbatim>\<open>while\<close> loop of the comparison updates.\<close>

record prepay_state =
  p_period :: int
  p_payment :: rat
  p_balance :: rat
  p_total_interest :: rat
  p_schedule :: "sched_entry list"

text \<open>The detail text of the exception of line 158, byte for byte.\<close>

definition insufficient_detail :: string where
  "insufficient_detail =
     ''Extra payment too small '' @
     [char_of (0xC3 :: nat), char_of (0xA2 :: nat), char_of (0xE2 :: nat), char_of (0x82 :: nat),
      char_of (0xAC :: nat), char_of (0xE2 :: nat), char_of (0x80 :: nat), char_of (0x9D :: nat)] @
     '' loan won'' @ [char_of (0x27 :: nat)] @ ''t amortize with this payment''"

definition InsufficientPaymentError :: py_error where
  "InsufficientPaymentError = HTTPException 400 insufficient_detail"

text \<open>
  The \<^verbatim>\<open>while balance > 0.0001 and period < n_max\<close> loop, lines 152 to 164. The
  \<^verbatim>\<open>raise\<close> leaves the function at once: the result is the error alone.
\<close>

function prepay_loop :: "rat \<Rightarrow> int \<Rightarrow> prepay_state \<Rightarrow> py_error + prepay_state" where
  "prepay_loop rp n_max st =
     (if 1 / 10000 < p_balance st \<and> p_period st < n_max then
        (let period' = p_period st + 1;
             interest = p_balance st * rp;
             principal_paid0 = p_payment st - interest
         in if principal_paid0 \<le> 0 then Inl InsufficientPaymentError
            else
              (let clamp = (p_balance st < principal_paid0);
                   principal_paid' = (if clamp then p_balance st else principal_paid0);
                   payment' = (if clamp then principal_paid' + interest else p_payment st);
                   balance' = p_balance st - principal_paid'
               in prepay_loop rp n_max
                    \<lparr>p_period = period',
                     p_payment = payment',
                     p_balance = balance',
                     p_total_interest = p_total_interest st + interest,
                     p_schedule = p_schedule st @
                       [\<lparr>period = period',
                         payment = py_round payment' 2,
                         principal_paid = py_round principal_paid' 2,
                         interest_paid = py_round interest 2,
                         remaining_balance = py_round (max balance' 0) 2\<rparr>]\<rparr>))
      else Inr st)"
  by pat_completeness auto
termination
  by (relation "measure (\<lambda>(rp, n_max, st). nat (n_max - p_period st))") auto

definition advice_text :: string where
  "advice_text =
     ''Prepay if interest_saved (after tax) > expected after-tax investment return and you value guaranteed saving; invest if you prefer liquidity and higher expected returns.''"

text \<open>
  The future value of the extra amount, lines 167 to 173; \<^verbatim>\<open>months\<close> is an integer.
\<close>

definition invest_fv :: "prepay_scenario \<Rightarrow> py_error + rat" where
  "invest_fv req =
     (let invest_r = invest_rate_pct req / 100;
          monthly_invest_r = invest_r / 12;
          months = years req * 12
      in if monthly_invest_r = 0 then Inr (extra_monthly req * of_int months)
         else case py_pow (1 + monthly_invest_r) months of
                Inl e \<Rightarrow> Inl e
              | Inr pw \<Rightarrow> Inr (extra_monthly req * ((pw - 1) / monthly_invest_r)))"

definition prepay_vs_invest :: "prepay_scenario \<Rightarrow> py_error + prepay_result" where
  "prepay_vs_invest req =
     (case amortization_schedule (principal req) (annual_rate_pct req)
             (of_int (years req)) (payments_per_year req) of
        Inl e \<Rightarrow> Inl e
      | Inr b \<Rightarrow>
          (let scaled_extra = extra_monthly req * (of_int (payments_per_year req) / 12);
               p = principal req;
               r = annual_rate_pct req / 100;
               n_max = years req * payments_per_year req * 5
           in if payments_per_year req = 0 then Inl ZeroDivisionError
              else
                (let rp = r / of_int (payments_per_year req);
                     pay = amort_result.payment b + scaled_extra
                 in case prepay_loop rp n_max
                           \<lparr>p_period = 0, p_payment = pay, p_balance = p,
                            p_total_interest = 0, p_schedule = []\<rparr> of
                      Inl e \<Rightarrow> Inl e
                    | Inr st \<Rightarrow>
                        (let payoff_months =
                               of_int (p_period st) / (of_int (payments_per_year req) / 12)
                         in case invest_fv req of
                              Inl e \<Rightarrow> Inl e
                            | Inr fv \<Rightarrow>
                                (let saved = amort_result.total_interest b - p_total_interest st
                                 in Inr \<lparr>base = b,
                                         with_extra =
                                           \<lparr>payment = py_round (p_payment st) 2,
                                            payoff_periods = p_period st,
                                            total_interest = py_round (p_total_interest st) 2,
                                            schedule_sample = take 6 (p_schedule st)\<rparr>,
                                         payoff_months_equivalent = py_round payoff_months 1,
                                         interest_saved = py_round saved 2,
                                         invest_future_value_of_extra = py_round fv 2,
                                         advice = advice_text\<rparr>)))))"

text \<open>
  The defining equations of the two loops are applied by hand in the proofs.
\<close>

declare amort_loop.simps [simp del]
declare prepay_loop.simps [simp del]

section \<open>The calculators over Python floats\<close>

text \<open>
  The exact model above tells what the code returns wherever binary rounding plays no
  part, which is how the evaluated examples below are chosen. For statements about every
  input the three calculators are translated once more, line by line, with the
  arithmetic of Python floats left open: \<open>'f\<close> is the type of the floats (infinities and
  NaN included) and a record holds the operations the source applies to them. The
  translation assumes nothing about the operations; a statement that needs a law of the
  arithmetic names it (\<open>float_laws\<close> below).

  \<^item> \<open>f_lit q\<close> is the float of a literal of the source (\<^verbatim>\<open>0.0\<close>, \<^verbatim>\<open>1\<close>, \<^verbatim>\<open>12.0\<close>,
    \<^verbatim>\<open>100.0\<close>, \<^verbatim>\<open>0.0001\<close>) and \<open>f_inf\<close> is \<^verbatim>\<open>float("inf")\<close>;
  \<^item> \<open>f_add\<close>, \<open>f_sub\<close>, \<open>f_mul\<close> are \<^verbatim>\<open>+\<close>, \<^verbatim>\<open>-\<close>, \<^verbatim>\<open>*\<close> on two floats, which never
    raise;
  \<^item> \<open>f_div\<close> is \<^verbatim>\<open>/\<close>, which raises ZeroDivisionError on a zero divisor, and \<open>f_pow\<close>
    is \<^verbatim>\<open>**\<close> with an integer exponent, which raises ZeroDivisionError or
    OverflowError;
  \<^item> \<open>f_of_int\<close> is the conversion of an integer operand in mixed arithmetic
    (\<^verbatim>\<open>years * payments_per_year\<close>, \<^verbatim>\<open>principal / n\<close>), which raises OverflowError
    on an integer too large for a float;
  \<^item> \<open>f_lt\<close>, \<open>f_le\<close>, \<open>f_eq\<close> are \<^verbatim>\<open><\<close>, \<^verbatim>\<open><=\<close>, \<^verbatim>\<open>==\<close> (\<^verbatim>\<open>a > b\<close> is \<open>f_lt b a\<close>,
    \<^verbatim>\<open>a != b\<close> is the negation of \<open>f_eq a b\<close>);
  \<^item> \<open>f_round x d\<close> is \<^verbatim>\<open>round(x, d)\<close>, a float, and \<open>f_round_int x\<close> is
    \<^verbatim>\<open>int(round(x))\<close>, which raises OverflowError on an infinity and ValueError on NaN.
\<close>

record 'f float_ops =
  f_lit :: "rat \<Rightarrow> 'f"
  f_inf :: 'f
  f_add :: "'f \<Rightarrow> 'f \<Rightarrow> 'f"
  f_sub :: "'f \<Rightarrow> 'f \<Rightarrow> 'f"
  f_mul :: "'f \<Rightarrow> 'f \<Rightarrow> 'f"
  f_div :: "'f \<Rightarrow> 'f \<Rightarrow> py_error + 'f"
  f_pow :: "'f \<Rightarrow> int \<Rightarrow> py_error + 'f"
  f_of_int :: "int \<Rightarrow> py_error + 'f"
  f_lt :: "'f \<Rightarrow> 'f \<Rightarrow> bool"
  f_le :: "'f \<Rightarrow> 'f \<Rightarrow> bool"
  f_eq :: "'f \<Rightarrow> 'f \<Rightarrow> bool"
  f_round :: "'f \<Rightarrow> nat \<Rightarrow> 'f"
  f_round_int :: "'f \<Rightarrow> py_error + int"

text \<open>
  The builtins \<^verbatim>\<open>min(a, b)\<close> and \<^verbatim>\<open>max(a, b)\<close> keep their first argument unless the
  second is smaller, respectively larger.
\<close>

definition py_min :: "'f float_ops \<Rightarrow> 'f \<Rightarrow> 'f \<Rightarrow> 'f" where
  "py_min A a b = (if f_lt A b a then b else a)"

definition py_max :: "'f float_ops \<Rightarrow> 'f \<Rightarrow> 'f \<Rightarrow> 'f" where
  "py_max A a b = (if f_lt A a b then b else a)"

subsection \<open>Tax calculation\<close>










subsection \<open>Loan amortization\<close>

record 'f sched_entry_f =
  period_f :: int
  payment_f :: 'f
  principal_paid_f :: 'f
  interest_paid_f :: 'f
  remaining_balance_f :: 'f

record 'f amort_result_f =
  periods_f :: int
  payment_f :: 'f
  total_interest_f :: 'f
  schedule_f :: "'f sched_entry_f list"

record 'f amort_state_f =
  a_payment_f :: 'f
  a_balance_f :: 'f
  a_total_interest_f :: 'f
  a_schedule_f :: "'f sched_entry_f list"

text \<open>
  Line 89, \<^verbatim>\<open>n = int(round(years * payments_per_year))\<close>. The loan endpoint passes a
  float for \<^verbatim>\<open>years\<close> (\<open>Inr\<close>), the comparison an integer (\<open>Inl\<close>), whose product with
  \<^verbatim>\<open>payments_per_year\<close> is an integer that \<^verbatim>\<open>round\<close> and \<^verbatim>\<open>int\<close> leave as it is.
\<close>

definition period_count_f :: "'f float_ops \<Rightarrow> int + 'f \<Rightarrow> int \<Rightarrow> py_error + int" where
  "period_count_f A years_v ppy =
     (case years_v of
        Inl y \<Rightarrow> Inr (y * ppy)
      | Inr y \<Rightarrow>
          (case f_of_int A ppy of
             Inl e \<Rightarrow> Inl e
           | Inr d \<Rightarrow> f_round_int A (f_mul A y d)))"

text \<open>\<^verbatim>\<open>x / k\<close> for a float \<open>x\<close> and an integer \<open>k\<close>.\<close>

definition div_int_f :: "'f float_ops \<Rightarrow> 'f \<Rightarrow> int \<Rightarrow> py_error + 'f" where
  "div_int_f A x k = (case f_of_int A k of Inl e \<Rightarrow> Inl e | Inr d \<Rightarrow> f_div A x d)"

text \<open>
  Lines 90 to 94. The result is the payment together with the rate per period that the
  loop uses: \<^verbatim>\<open>r / payments_per_year\<close> at line 103 has the operands of line 93 and so
  the same value; with \<^verbatim>\<open>r == 0\<close> the loop does not use it.
\<close>

definition initial_payment_f ::
  "'f float_ops \<Rightarrow> 'f \<Rightarrow> 'f \<Rightarrow> int \<Rightarrow> int \<Rightarrow> py_error + ('f \<times> 'f)"
where
  "initial_payment_f A principal_amt r n ppy =
     (if f_eq A r (f_lit A 0) then
        (if 0 < n then
           (case div_int_f A principal_amt n of
              Inl e \<Rightarrow> Inl e
            | Inr pay \<Rightarrow> Inr (pay, r))
         else Inr (principal_amt, r))
      else
        (case div_int_f A r ppy of
           Inl e \<Rightarrow> Inl e
         | Inr rp \<Rightarrow>
             (case f_pow A (f_add A (f_lit A 1) rp) (- n) of
                Inl e \<Rightarrow> Inl e
              | Inr pw \<Rightarrow>
                  (case f_div A (f_mul A principal_amt rp) (f_sub A (f_lit A 1) pw) of
                     Inl e \<Rightarrow> Inl e
                   | Inr pay \<Rightarrow> Inr (pay, rp)))))"

text \<open>
  One pass of the body of \<^verbatim>\<open>for i in range(1, n+1)\<close>, lines 99 to 117; \<open>zero_rate\<close> is
  the outcome of \<^verbatim>\<open>r == 0\<close>.
\<close>

definition amort_step_f ::
  "'f float_ops \<Rightarrow> bool \<Rightarrow> 'f \<Rightarrow> int \<Rightarrow> 'f amort_state_f \<Rightarrow> 'f amort_state_f"
where
  "amort_step_f A zero_rate rp i st =
     (let interest = (if zero_rate then f_lit A 0 else f_mul A (a_balance_f st) rp);
          principal_pay = (if zero_rate then a_payment_f st
                           else f_sub A (a_payment_f st) interest);
          clamp = f_lt A (a_balance_f st) principal_pay;
          principal_pay' = (if clamp then a_balance_f st else principal_pay);
          payment' = (if clamp then f_add A principal_pay' interest else a_payment_f st);
          balance' = f_round A (f_sub A (a_balance_f st) principal_pay') 10
      in \<lparr>a_payment_f = payment',
          a_balance_f = balance',
          a_total_interest_f = f_add A (a_total_interest_f st) interest,
          a_schedule_f = a_schedule_f st @
            [\<lparr>period_f = i,
              payment_f = f_round A payment' 2,
              principal_paid_f = f_round A principal_pay' 2,
              interest_paid_f = f_round A interest 2,
              remaining_balance_f =
                f_round A (if f_lt A (f_lit A 0) balance' then balance' else f_lit A 0) 2\<rparr>]\<rparr>)"

function amort_loop_f ::
  "'f float_ops \<Rightarrow> bool \<Rightarrow> 'f \<Rightarrow> int \<Rightarrow> int \<Rightarrow> 'f amort_state_f \<Rightarrow> 'f amort_state_f"
where
  "amort_loop_f A zero_rate rp n i st =
     (if n < i then st
      else if f_le A (a_balance_f (amort_step_f A zero_rate rp i st)) (f_lit A 0)
        then amort_step_f A zero_rate rp i st
      else amort_loop_f A zero_rate rp n (i + 1) (amort_step_f A zero_rate rp i st))"
  by pat_completeness auto
termination
  by (relation "measure (\<lambda>(A, zero_rate, rp, n, i, st). nat (n + 1 - i))") auto

definition amortization_schedule_f ::
  "'f float_ops \<Rightarrow> 'f \<Rightarrow> 'f \<Rightarrow> int + 'f \<Rightarrow> int \<Rightarrow> py_error + 'f amort_result_f"
where
  "amortization_schedule_f A principal_amt rate_pct years_v ppy =
     (case f_div A rate_pct (f_lit A 100) of
        Inl e \<Rightarrow> Inl e
      | Inr r \<Rightarrow>
          (case period_count_f A years_v ppy of
             Inl e \<Rightarrow> Inl e
           | Inr n \<Rightarrow>
               (case initial_payment_f A principal_amt r n ppy of
                  Inl e \<Rightarrow> Inl e
                | Inr (pay, rp) \<Rightarrow>
                    (let st = amort_loop_f A (f_eq A r (f_lit A 0)) rp n 1
                                \<lparr>a_payment_f = pay, a_balance_f = principal_amt,
                                 a_total_interest_f = f_lit A 0, a_schedule_f = []\<rparr>
                     in Inr \<lparr>periods_f = n,
                             payment_f = f_round A (a_payment_f st) 2,
                             total_interest_f = f_round A (a_total_interest_f st) 2,
                             schedule_f = a_schedule_f st\<rparr>))))"

subsection \<open>Prepay versus invest\<close>


record 'f with_extra_result_f =
  payment_f :: 'f
  payoff_periods_f :: int
  total_interest_f :: 'f
  schedule_sample_f :: "'f sched_entry_f list"


record 'f prepay_state_f =
  p_period_f :: int
  p_payment_f :: 'f
  p_balance_f :: 'f
  p_total_interest_f :: 'f
  p_schedule_f :: "'f sched_entry_f list"




definition prepay_next_f ::
  "'f float_ops \<Rightarrow> 'f \<Rightarrow> 'f prepay_state_f \<Rightarrow> 'f prepay_state_f"
where
  "prepay_next_f A rp st =
     (let period' = p_period_f st + 1;
          interest = f_mul A (p_balance_f st) rp;
          principal_paid0 = f_sub A (p_payment_f st) interest;
          clamp = f_lt A (p_balance_f st) principal_paid0;
          principal_paid' = (if clamp then p_balance_f st else principal_paid0);
          payment' = (if clamp then f_add A principal_paid' interest else p_payment_f st);
          balance' = f_sub A (p_balance_f st) principal_paid'
      in \<lparr>p_period_f = period',
          p_payment_f = payment',
          p_balance_f = balance',
          p_total_interest_f = f_add A (p_total_interest_f st) interest,
          p_schedule_f = p_schedule_f st @
            [\<lparr>period_f = period',
              payment_f = f_round A payment' 2,
              principal_paid_f = f_round A principal_paid' 2,
              interest_paid_f = f_round A interest 2,
              remaining_balance_f =
                f_round A (if f_lt A balance' (f_lit A 0) then f_lit A 0 else balance') 2\<rparr>]\<rparr>)"






declare amort_loop_f.simps [simp del]

subsection \<open>Exact arithmetic as an instance\<close>

text \<open>
  One arithmetic of this kind computes exactly: its floats are the rationals, the two
  infinities and NaN, the operations on infinities and NaN are those of IEEE floats, and
  a finite result is never rounded except by \<^verbatim>\<open>round\<close> itself. It is the arithmetic of
  the exact model, and the one on which the statements below are exercised.
\<close>

datatype xrat = Fin rat | PInf | NInf | NaN

fun x_neg :: "xrat \<Rightarrow> xrat" where
  "x_neg (Fin a) = Fin (- a)"
| "x_neg PInf = NInf"
| "x_neg NInf = PInf"
| "x_neg NaN = NaN"

fun x_add :: "xrat \<Rightarrow> xrat \<Rightarrow> xrat" where
  "x_add (Fin a) (Fin b) = Fin (a + b)"
| "x_add NaN y = NaN"
| "x_add x NaN = NaN"
| "x_add PInf NInf = NaN"
| "x_add NInf PInf = NaN"
| "x_add PInf y = PInf"
| "x_add NInf y = NInf"
| "x_add x PInf = PInf"
| "x_add x NInf = NInf"

definition x_sub :: "xrat \<Rightarrow> xrat \<Rightarrow> xrat" where
  "x_sub x y = x_add x (x_neg y)"

text \<open>The sign of a float that is not NaN, as -1, 0 or 1.\<close>

fun x_sign :: "xrat \<Rightarrow> int" where
  "x_sign (Fin a) = (if a < 0 then - 1 else if a = 0 then 0 else 1)"
| "x_sign PInf = 1"
| "x_sign NInf = - 1"
| "x_sign NaN = 0"

definition x_signed_inf :: "int \<Rightarrow> xrat" where
  "x_signed_inf s = (if s = 0 then NaN else if 0 < s then PInf else NInf)"

fun x_mul :: "xrat \<Rightarrow> xrat \<Rightarrow> xrat" where
  "x_mul (Fin a) (Fin b) = Fin (a * b)"
| "x_mul NaN y = NaN"
| "x_mul x NaN = NaN"
| "x_mul x y = x_signed_inf (x_sign x * x_sign y)"

fun x_quot :: "xrat \<Rightarrow> xrat \<Rightarrow> xrat" where
  "x_quot (Fin a) (Fin b) = Fin (a / b)"
| "x_quot NaN y = NaN"
| "x_quot x NaN = NaN"
| "x_quot (Fin a) y = Fin 0"
| "x_quot x (Fin b) = x_signed_inf (x_sign x * x_sign (Fin b))"
| "x_quot x y = NaN"

definition x_div :: "xrat \<Rightarrow> xrat \<Rightarrow> py_error + xrat" where
  "x_div x y = (if y = Fin 0 then Inl ZeroDivisionError else Inr (x_quot x y))"

fun x_pow :: "xrat \<Rightarrow> int \<Rightarrow> py_error + xrat" where
  "x_pow (Fin b) e = (case py_pow b e of Inl err \<Rightarrow> Inl err | Inr v \<Rightarrow> Inr (Fin v))"
| "x_pow NaN e = Inr (if e = 0 then Fin 1 else NaN)"
| "x_pow PInf e = Inr (if e = 0 then Fin 1 else if 0 < e then PInf else Fin 0)"
| "x_pow NInf e =
     Inr (if e = 0 then Fin 1 else if e < 0 then Fin 0 else if even e then PInf else NInf)"

fun x_lt :: "xrat \<Rightarrow> xrat \<Rightarrow> bool" where
  "x_lt (Fin a) (Fin b) = (a < b)"
| "x_lt NaN y = False"
| "x_lt x NaN = False"
| "x_lt PInf y = False"
| "x_lt x NInf = False"
| "x_lt x y = True"

fun x_le :: "xrat \<Rightarrow> xrat \<Rightarrow> bool" where
  "x_le (Fin a) (Fin b) = (a \<le> b)"
| "x_le NaN y = False"
| "x_le x NaN = False"
| "x_le x PInf = True"
| "x_le NInf y = True"
| "x_le x y = False"

definition x_eq :: "xrat \<Rightarrow> xrat \<Rightarrow> bool" where
  "x_eq x y = (x \<noteq> NaN \<and> x = y)"

fun x_round :: "xrat \<Rightarrow> nat \<Rightarrow> xrat" where
  "x_round (Fin a) d = Fin (py_round a d)"
| "x_round x d = x"

fun x_round_int :: "xrat \<Rightarrow> py_error + int" where
  "x_round_int (Fin a) = Inr (round_half_even a)"
| "x_round_int NaN = Inl ValueError"
| "x_round_int x = Inl OverflowError"

definition exact_ops :: "xrat float_ops" where
  "exact_ops =
     \<lparr>f_lit = Fin, f_inf = PInf, f_add = x_add, f_sub = x_sub, f_mul = x_mul,
      f_div = x_div, f_pow = x_pow, f_of_int = (\<lambda>k. Inr (Fin (of_int k))),
      f_lt = x_lt, f_le = x_le, f_eq = x_eq, f_round = x_round,
      f_round_int = x_round_int\<rparr>"


section \<open>Predicates and measures used in the statements\<close>

subsection \<open>On the exact model\<close>

text \<open>
  The part of the income that a breakdown entry taxes: from \<open>band_from\<close> up to
  \<open>band_from + taxable\<close>.
\<close>

definition income_band :: "band_entry \<Rightarrow> (rat \<times> rat) option" where
  "income_band e =
     (case band_from e of Finite lo \<Rightarrow> Some (lo, lo + taxable e) | Infinity \<Rightarrow> None)"

definition breakdown_of :: "py_error + tax_result \<Rightarrow> band_entry list" where
  "breakdown_of x = (case x of Inl e \<Rightarrow> [] | Inr res \<Rightarrow> breakdown res)"


text \<open>The sum of the \<open>principal_paid\<close> entries of a schedule.\<close>

definition sum_principal_paid :: "sched_entry list \<Rightarrow> rat" where
  "sum_principal_paid es = sum_list (map principal_paid es)"

text \<open>Projections of a result that may be an error, for the examples.\<close>

definition schedule_of :: "py_error + amort_result \<Rightarrow> sched_entry list" where
  "schedule_of x = (case x of Inl e \<Rightarrow> [] | Inr res \<Rightarrow> schedule res)"

definition payment_of :: "py_error + amort_result \<Rightarrow> rat option" where
  "payment_of x = (case x of Inl e \<Rightarrow> None | Inr res \<Rightarrow> Some (amort_result.payment res))"

text \<open>
  Rounding a quotient of integers to the nearest integer, ties to even, computed on the
  integers: the form in which the rounding of a literal fraction is evaluated.
\<close>

definition rhe_int :: "int \<Rightarrow> int \<Rightarrow> int" where
  "rhe_int a b =
     (if 2 * (a mod b) < b then a div b
      else if b < 2 * (a mod b) then a div b + 1
      else if even (a div b) then a div b else a div b + 1)"

text \<open>The state after one pass of the loop body that does not raise.\<close>

definition prepay_next :: "rat \<Rightarrow> prepay_state \<Rightarrow> prepay_state" where
  "prepay_next rp st =
     (let interest = p_balance st * rp;
          principal_paid0 = p_payment st - interest;
          clamp = (p_balance st < principal_paid0);
          principal_paid' = (if clamp then p_balance st else principal_paid0);
          payment' = (if clamp then principal_paid' + interest else p_payment st);
          balance' = p_balance st - principal_paid'
      in \<lparr>p_period = p_period st + 1,
          p_payment = payment',
          p_balance = balance',
          p_total_interest = p_total_interest st + interest,
          p_schedule = p_schedule st @
            [\<lparr>period = p_period st + 1,
              payment = py_round payment' 2,
              principal_paid = py_round principal_paid' 2,
              interest_paid = py_round interest 2,
              remaining_balance = py_round (max balance' 0) 2\<rparr>]\<rparr>)"

text \<open>The figures of a comparison that the examples look at.\<close>

record comparison_summary =
  s_base_periods :: int
  s_base_payment :: rat
  s_base_total_interest :: rat
  s_payoff_periods :: int
  s_total_interest :: rat
  s_interest_saved :: rat

definition summary :: "prepay_result \<Rightarrow> comparison_summary" where
  "summary res =
     \<lparr>s_base_periods = periods (base res),
      s_base_payment = amort_result.payment (base res),
      s_base_total_interest = amort_result.total_interest (base res),
      s_payoff_periods = payoff_periods (with_extra res),
      s_total_interest = with_extra_result.total_interest (with_extra res),
      s_interest_saved = interest_saved res\<rparr>"


subsection \<open>On the float model\<close>

text \<open>
  The errors that the arithmetic raises; the endpoint's own exception is not among them.
\<close>

definition arithmetic_error :: "py_error \<Rightarrow> bool" where
  "arithmetic_error e = (e = ZeroDivisionError \<or> e = OverflowError \<or> e = ValueError)"

text \<open>
  A float that is not below zero: \<^verbatim>\<open>x < 0\<close> is false. Zero, both signed zeros of a
  double, every positive float and NaN are of this kind.
\<close>

definition not_below_zero :: "'f float_ops \<Rightarrow> 'f \<Rightarrow> bool" where
  "not_below_zero A x = (\<not> f_lt A x (f_lit A 0))"

text \<open>
  The laws of the arithmetic that the statements below rely on. Each is a law of IEEE
  doubles under Python's operations, at every double, infinities and NaN included:

  \<^item> the operations that raise, raise arithmetic errors only;
  \<^item> no float is below itself, and a float above zero is not below zero;
  \<^item> sums, products and roundings of floats that are not below zero are not below
    zero;
  \<^item> \<^verbatim>\<open>0.0 + 0.0\<close> and \<^verbatim>\<open>round(0.0, d)\<close> are \<^verbatim>\<open>0.0\<close>;
  \<^item> when \<^verbatim>\<open>x < y\<close> is false, \<^verbatim>\<open>round(x - y, d)\<close> is not below zero;
  \<^item> a float \<open>x\<close> that is below some float is not an infinity of its own sign, so
    \<^verbatim>\<open>x - x\<close> is \<^verbatim>\<open>0.0\<close> or NaN and is not above 0.0001; when moreover \<open>x\<close> is not
    below zero, \<open>x\<close> is finite and \<^verbatim>\<open>round(x - x, d) <= 0\<close> holds.
\<close>

definition float_laws :: "'f float_ops \<Rightarrow> bool" where
  "float_laws A \<longleftrightarrow>
     (\<forall>x y e. f_div A x y = Inl e \<longrightarrow> arithmetic_error e) \<and>
     (\<forall>x k e. f_pow A x k = Inl e \<longrightarrow> arithmetic_error e) \<and>
     (\<forall>k e. f_of_int A k = Inl e \<longrightarrow> arithmetic_error e) \<and>
     (\<forall>x e. f_round_int A x = Inl e \<longrightarrow> arithmetic_error e) \<and>
     (\<forall>x. \<not> f_lt A x x) \<and>
     (\<forall>x. f_lt A (f_lit A 0) x \<longrightarrow> not_below_zero A x) \<and>
     (\<forall>x y. not_below_zero A x \<and> not_below_zero A y \<longrightarrow> not_below_zero A (f_add A x y)) \<and>
     (\<forall>x y. not_below_zero A x \<and> not_below_zero A y \<longrightarrow> not_below_zero A (f_mul A x y)) \<and>
     (\<forall>x d. not_below_zero A x \<longrightarrow> not_below_zero A (f_round A x d)) \<and>
     f_add A (f_lit A 0) (f_lit A 0) = f_lit A 0 \<and>
     (\<forall>d. f_round A (f_lit A 0) d = f_lit A 0) \<and>
     (\<forall>x y d. \<not> f_lt A x y \<longrightarrow> not_below_zero A (f_round A (f_sub A x y) d)) \<and>
     (\<forall>x y. f_lt A x y \<longrightarrow> \<not> f_lt A (f_lit A (1 / 10000)) (f_sub A x x)) \<and>
     (\<forall>x y d. f_lt A x y \<and> not_below_zero A x \<longrightarrow>
        f_le A (f_round A (f_sub A x x) d) (f_lit A 0))"






text \<open>
  The amortization loop at a zero rate: what holds of its variables while it runs with
  the payment \<open>pay0\<close>, and what holds when it has ended.
\<close>

definition zero_rate_running :: "'f float_ops \<Rightarrow> 'f \<Rightarrow> 'f amort_state_f \<Rightarrow> bool" where
  "zero_rate_running A pay0 st \<longleftrightarrow>
     a_total_interest_f st = f_lit A 0 \<and>
     (\<forall>e\<in>set (a_schedule_f st).
        interest_paid_f e = f_lit A 0 \<and> sched_entry_f.payment_f e = f_round A pay0 2) \<and>
     a_payment_f st = pay0 \<and>
     not_below_zero A (a_balance_f st)"

definition zero_rate_ended :: "'f float_ops \<Rightarrow> 'f \<Rightarrow> 'f amort_state_f \<Rightarrow> bool" where
  "zero_rate_ended A pay0 st \<longleftrightarrow>
     a_total_interest_f st = f_lit A 0 \<and>
     (\<forall>e\<in>set (a_schedule_f st). interest_paid_f e = f_lit A 0) \<and>
     (\<forall>e\<in>set (butlast (a_schedule_f st)). sched_entry_f.payment_f e = f_round A pay0 2) \<and>
     (a_schedule_f st \<noteq> [] \<longrightarrow>
        sched_entry_f.payment_f (last (a_schedule_f st)) = f_round A (a_payment_f st) 2 \<and>
        (a_payment_f st = pay0 \<or>
         (\<exists>b. f_lt A b pay0 \<and> a_payment_f st = f_add A b (f_lit A 0) \<and>
              principal_paid_f (last (a_schedule_f st)) = f_round A b 2)))"

text \<open>
  The state of the comparison's loop after \<open>k\<close> passes of its body from the state \<open>st\<close>.
  Period \<open>k + 1\<close> is simulated when the loop condition holds in each of the states 0 to
  \<open>k\<close> and the test of line 156 has not raised in the states before \<open>k\<close>.
\<close>

definition simulated ::
  "'f float_ops \<Rightarrow> 'f \<Rightarrow> 'f prepay_state_f \<Rightarrow> nat \<Rightarrow> 'f prepay_state_f"
where
  "simulated A rp st k = (prepay_next_f A rp ^^ k) st"



section \<open>Rounding\<close>

lemma round_half_even_err: "\<bar>of_int (round_half_even x) - x\<bar> \<le> 1 / 2"
proof -
  have "of_int \<lfloor>x\<rfloor> \<le> x" "x < of_int \<lfloor>x\<rfloor> + 1" by linarith+
  then show ?thesis
    unfolding round_half_even_def Let_def
    by (simp add: abs_if not_less) linarith
qed

lemma round_half_even_of_int [simp]: "round_half_even (of_int k) = k"
  by (simp add: round_half_even_def)

lemma round_half_even_mono:
  assumes "x \<le> y"
  shows "round_half_even x \<le> round_half_even y"
proof (cases "\<lfloor>x\<rfloor> = \<lfloor>y\<rfloor>")
  case True
  then show ?thesis using assms
    by (auto simp: round_half_even_def Let_def)
next
  case False
  with assms have lt: "\<lfloor>x\<rfloor> + 1 \<le> \<lfloor>y\<rfloor>"
    using floor_mono [OF assms] by linarith
  have a: "round_half_even x \<le> \<lfloor>x\<rfloor> + 1"
    by (auto simp: round_half_even_def Let_def)
  have b: "\<lfloor>y\<rfloor> \<le> round_half_even y"
    by (auto simp: round_half_even_def Let_def)
  from a b lt show ?thesis by linarith
qed

lemma py_round_err: "\<bar>py_round x d - x\<bar> \<le> 1 / (2 * 10 ^ d)"
proof -
  have pos: "(0::rat) < 10 ^ d" by simp
  have "\<bar>py_round x d - x\<bar> = \<bar>of_int (round_half_even (x * 10 ^ d)) - x * 10 ^ d\<bar> / 10 ^ d"
    using pos by (simp add: py_round_def field_simps abs_divide flip: abs_mult)
  also have "\<dots> \<le> (1 / 2) / 10 ^ d"
    by (rule divide_right_mono [OF round_half_even_err]) simp
  finally show ?thesis by simp
qed

lemma py_round_mono: "x \<le> y \<Longrightarrow> py_round x d \<le> py_round y d"
  unfolding py_round_def
  by (intro divide_right_mono) (simp_all add: round_half_even_mono)

lemma py_round_0 [simp]: "py_round 0 d = 0"
  using round_half_even_of_int [of 0] by (simp add: py_round_def del: round_half_even_of_int)

lemma py_round_nonneg: "0 \<le> x \<Longrightarrow> 0 \<le> py_round x d"
  using py_round_mono [of 0 x d] by simp

lemma py_round_fix: "py_round (of_int k / 10 ^ d) d = of_int k / 10 ^ d"
  by (simp add: py_round_def)

lemma py_round_idem [simp]: "py_round (py_round x d) d = py_round x d"
  unfolding py_round_def [of x] by (rule py_round_fix)

subsection \<open>Evaluating the rounding of literals\<close>

lemma round_half_even_quotient:
  assumes "0 < b"
  shows "round_half_even (of_int a / of_int b) = rhe_int a b"
proof -
  have fl: "\<lfloor>(of_int a :: rat) / of_int b\<rfloor> = a div b"
    by (rule floor_divide_of_int_eq)
  have "(of_int a :: rat) = of_int (a div b) * of_int b + of_int (a mod b)"
    by (simp flip: of_int_mult of_int_add)
  then have d: "(of_int a :: rat) / of_int b - of_int (a div b) = of_int (a mod b) / of_int b"
    using assms by (simp add: field_simps)
  have c1: "(of_int (a mod b) / of_int b < (1 / 2 :: rat)) = (2 * (a mod b) < b)"
  proof -
    have "(of_int (a mod b) / of_int b < (1 / 2 :: rat)) = ((of_int (2 * (a mod b)) :: rat) < of_int b)"
      using assms by (simp add: field_simps)
    then show ?thesis by (simp only: of_int_less_iff)
  qed
  have c2: "((1 / 2 :: rat) < of_int (a mod b) / of_int b) = (b < 2 * (a mod b))"
  proof -
    have "((1 / 2 :: rat) < of_int (a mod b) / of_int b) = ((of_int b :: rat) < of_int (2 * (a mod b)))"
      using assms by (simp add: field_simps)
    then show ?thesis by (simp only: of_int_less_iff)
  qed
  show ?thesis
    by (simp only: round_half_even_def Let_def fl d c1 c2 rhe_int_def)
qed

lemma round_half_even_literal:
  "round_half_even (numeral a / numeral b) = rhe_int (numeral a) (numeral b)"
  "round_half_even (- (numeral a / numeral b)) = rhe_int (- numeral a) (numeral b)"
  "round_half_even (1 / numeral b) = rhe_int 1 (numeral b)"
  "round_half_even (- (1 / numeral b)) = rhe_int (- 1) (numeral b)"
  "round_half_even (numeral a) = numeral a"
  "round_half_even (- numeral a) = - numeral a"
  "round_half_even 0 = 0"
  "round_half_even 1 = 1"
  "round_half_even (- 1) = - 1"
  using round_half_even_quotient [of "numeral b" "numeral a"]
        round_half_even_quotient [of "numeral b" "- numeral a"]
        round_half_even_quotient [of "numeral b" 1]
        round_half_even_quotient [of "numeral b" "- 1"]
        round_half_even_of_int [of "numeral a"] round_half_even_of_int [of "- numeral a"]
        round_half_even_of_int [of 0] round_half_even_of_int [of 1] round_half_even_of_int [of "- 1"]
  by simp_all

lemma py_round_of_int: "py_round (of_int k) nd = of_int k"
proof -
  have "(of_int k :: rat) * 10 ^ nd = of_int (k * 10 ^ nd)" by simp
  then have "round_half_even (of_int k * 10 ^ nd) = k * 10 ^ nd"
    by (simp only: round_half_even_of_int)
  then show ?thesis by (simp add: py_round_def)
qed

lemma py_round_literal:
  "py_round (numeral a / numeral b) nd =
     of_int (round_half_even (numeral a / numeral b * 10 ^ nd)) / 10 ^ nd"
  "py_round (- (numeral a / numeral b)) nd =
     of_int (round_half_even (- (numeral a / numeral b) * 10 ^ nd)) / 10 ^ nd"
  "py_round (1 / numeral b) nd = of_int (round_half_even (1 / numeral b * 10 ^ nd)) / 10 ^ nd"
  "py_round (- (1 / numeral b)) nd = of_int (round_half_even (- (1 / numeral b) * 10 ^ nd)) / 10 ^ nd"
  "py_round (numeral a) nd = numeral a"
  "py_round (- numeral a) nd = - numeral a"
  "py_round 1 nd = 1"
  "py_round (- 1) nd = - 1"
  using py_round_of_int [of "numeral a" nd] py_round_of_int [of "- numeral a" nd]
    py_round_of_int [of 1 nd] py_round_of_int [of "- 1" nd]
  by (simp_all add: py_round_def)

lemmas literal_eval = round_half_even_literal py_round_literal rhe_int_def

lemmas amort_eval =
  amortization_schedule_def initial_payment_def py_pow_def amort_loop.simps amort_step_def
  Let_def power_divide literal_eval

section \<open>Evaluated tax calculations\<close>

text \<open>
  Claim C2. With a taxable income of 600000 and the four-slab default table,
  \<open>compute_progressive_tax\<close> returns a tax due of 32500 and exactly three breakdown
  entries, which tax the income from 0 to 250000 with 0, from 250000 to 500000 with
  12500 and from 500000 to 600000 with 20000. The fourth slab is not evaluated. (The
  \<open>band_to\<close> field of an entry is the bound of its slab, 1000000 for the third.)
\<close>

theorem default_table_example:
  "compute_progressive_tax 600000 default_slabs =
     Inr \<lparr>tax_due = 32500,
          breakdown =
            [\<lparr>band_from = Finite 0, band_to = Some 250000, taxable = 250000,
              rate = 0, tax = 0\<rparr>,
             \<lparr>band_from = Finite 250000, band_to = Some 500000, taxable = 250000,
              rate = 5 / 100, tax = 12500\<rparr>,
             \<lparr>band_from = Finite 500000, band_to = Some 1000000, taxable = 100000,
              rate = 20 / 100, tax = 20000\<rparr>]\<rparr> \<and>
   map income_band (breakdown_of (compute_progressive_tax 600000 default_slabs)) =
     [Some (0, 250000), Some (250000, 500000), Some (500000, 600000)] \<and>
   map tax (breakdown_of (compute_progressive_tax 600000 default_slabs)) = [0, 12500, 20000]"
  by code_simp



section \<open>Evaluated amortization schedules\<close>

text \<open>
  Claim C9. When \<open>round(years * payments_per_year)\<close> is 0, a nonzero rate makes
  \<open>amortization_schedule\<close> fail with a division by zero: the denominator
  \<open>1 - (1+rp)**(-n)\<close> is 0. The guard \<open>n > 0\<close> covers the zero-rate branch only, which
  then returns the principal as payment and an empty schedule. Inputs within the stated
  preconditions reach the failure: 0.04 years of 12 payments round to 0 periods.
\<close>

theorem zero_periods_division_by_zero:
  assumes "round_half_even (years_v * of_int ppy) = 0"
  shows "(a \<noteq> 0 \<longrightarrow> amortization_schedule p a years_v ppy = Inl ZeroDivisionError) \<and>
         (a = 0 \<longrightarrow> amortization_schedule p a years_v ppy =
              Inr \<lparr>periods = 0, payment = py_round p 2, total_interest = 0, schedule = []\<rparr>)"
  using assms
  by (simp add: amortization_schedule_def initial_payment_def py_pow_def Let_def amort_loop.simps)

theorem zero_periods_division_by_zero_witness:
  "(0::rat) < 1 \<and> (0::rat) < 6 \<and> (0::rat) < 4 / 100 \<and> (1::int) \<le> 12 \<and>
   round_half_even (4 / 100 * of_int 12) = 0 \<and>
   amortization_schedule 1 6 (4 / 100) 12 = Inl ZeroDivisionError"
proof -
  have h: "round_half_even (4 / 100 * of_int 12) = 0"
    by code_simp
  from zero_periods_division_by_zero [OF h, of 6 1] h show ?thesis
    by simp
qed

text \<open>
  Claim C4: the last entry of the schedule has a remaining balance of 0, unless the
  schedule is cut where the balance reaches 0. The code rounds the balance to 10
  decimals after every payment (line 109), and the claim is broken where the principal
  part of a payment is below that precision: a principal of 1 at 1000 percent over 12
  yearly periods has a payment of 10.000000000003, of which 0.000000000003 would repay
  principal; the balance rounds back to 1 in every period, and all 12 periods are
  reported with a remaining balance of 1, the last one included.
\<close>

theorem final_balance_failing_input:
  "amortization_schedule 1 1000 12 1 =
     Inr \<lparr>periods = 12, payment = 10, total_interest = 120,
          schedule =
            [\<lparr>period = 1, payment = 10, principal_paid = 0, interest_paid = 10, remaining_balance = 1\<rparr>,
             \<lparr>period = 2, payment = 10, principal_paid = 0, interest_paid = 10, remaining_balance = 1\<rparr>,
             \<lparr>period = 3, payment = 10, principal_paid = 0, interest_paid = 10, remaining_balance = 1\<rparr>,
             \<lparr>period = 4, payment = 10, principal_paid = 0, interest_paid = 10, remaining_balance = 1\<rparr>,
             \<lparr>period = 5, payment = 10, principal_paid = 0, interest_paid = 10, remaining_balance = 1\<rparr>,
             \<lparr>period = 6, payment = 10, principal_paid = 0, interest_paid = 10, remaining_balance = 1\<rparr>,
             \<lparr>period = 7, payment = 10, principal_paid = 0, interest_paid = 10, remaining_balance = 1\<rparr>,
             \<lparr>period = 8, payment = 10, principal_paid = 0, interest_paid = 10, remaining_balance = 1\<rparr>,
             \<lparr>period = 9, payment = 10, principal_paid = 0, interest_paid = 10, remaining_balance = 1\<rparr>,
             \<lparr>period = 10, payment = 10, principal_paid = 0, interest_paid = 10, remaining_balance = 1\<rparr>,
             \<lparr>period = 11, payment = 10, principal_paid = 0, interest_paid = 10, remaining_balance = 1\<rparr>,
             \<lparr>period = 12, payment = 10, principal_paid = 0, interest_paid = 10,
              remaining_balance = 1\<rparr>]\<rparr> \<and>
   length (schedule_of (amortization_schedule 1 1000 12 1)) = 12 \<and>
   remaining_balance (last (schedule_of (amortization_schedule 1 1000 12 1))) = 1"
  (is "?e \<and> _")
proof -
  have e: ?e
    by (simp add: amort_eval)
  show ?thesis
    unfolding e by (simp add: schedule_of_def)
qed

text \<open>
  The same rounding can raise the balance: a principal of 0.00000000006 at 1000 percent
  over 12 yearly periods rounds up to a balance of 0.0000000001 after the first period;
  from then on the interest exceeds the payment and the reported balance grows, to 11.41
  in the last period.
\<close>

lemma sub_precision_principal_example:
  "map remaining_balance (schedule_of (amortization_schedule (6 / 10 ^ 11) 1000 12 1)) =
     [0, 0, 0, 0, 0, 0, 0, 0, 0.01, 0.09, 1.04, 11.41]"
  by (simp add: schedule_of_def amort_eval)

text \<open>
  Claim C5, as stated: the \<open>principal_paid\<close> entries add up to the principal within
  0.01. It fails, because each entry is rounded to cents on its own: 1000 repaid in 7
  periods at a zero rate is reported as 7 times 142.86, which is 1000.02.
\<close>

theorem round_trip_counterexample:
  "amortization_schedule 1000 0 7 1 =
     Inr \<lparr>periods = 7, payment = 142.86, total_interest = 0,
          schedule =
            [\<lparr>period = 1, payment = 142.86, principal_paid = 142.86, interest_paid = 0,
              remaining_balance = 857.14\<rparr>,
             \<lparr>period = 2, payment = 142.86, principal_paid = 142.86, interest_paid = 0,
              remaining_balance = 714.29\<rparr>,
             \<lparr>period = 3, payment = 142.86, principal_paid = 142.86, interest_paid = 0,
              remaining_balance = 571.43\<rparr>,
             \<lparr>period = 4, payment = 142.86, principal_paid = 142.86, interest_paid = 0,
              remaining_balance = 428.57\<rparr>,
             \<lparr>period = 5, payment = 142.86, principal_paid = 142.86, interest_paid = 0,
              remaining_balance = 285.71\<rparr>,
             \<lparr>period = 6, payment = 142.86, principal_paid = 142.86, interest_paid = 0,
              remaining_balance = 142.86\<rparr>,
             \<lparr>period = 7, payment = 142.86, principal_paid = 142.86, interest_paid = 0,
              remaining_balance = 0\<rparr>]\<rparr> \<and>
   sum_principal_paid (schedule_of (amortization_schedule 1000 0 7 1)) = 1000.02 \<and>
   \<not> \<bar>sum_principal_paid (schedule_of (amortization_schedule 1000 0 7 1)) - 1000\<bar> \<le> 0.01"
  (is "?e \<and> _")
proof -
  have e: ?e
    by (simp add: amort_eval)
  show ?thesis
    unfolding e by (simp add: schedule_of_def sum_principal_paid_def)
qed

text \<open>
  Claim C6, as stated: at a zero rate the returned payment is \<open>principal / n\<close> exactly.
  It fails: the returned payment is rounded to cents. A principal of 1 over 3 periods
  returns a payment of 0.33, not one third.
\<close>

theorem zero_rate_payment_counterexample:
  "amortization_schedule 1 0 3 1 =
     Inr \<lparr>periods = 3, payment = 0.33, total_interest = 0,
          schedule =
            [\<lparr>period = 1, payment = 0.33, principal_paid = 0.33, interest_paid = 0,
              remaining_balance = 0.67\<rparr>,
             \<lparr>period = 2, payment = 0.33, principal_paid = 0.33, interest_paid = 0,
              remaining_balance = 0.33\<rparr>,
             \<lparr>period = 3, payment = 0.33, principal_paid = 0.33, interest_paid = 0,
              remaining_balance = 0\<rparr>]\<rparr> \<and>
   payment_of (amortization_schedule 1 0 3 1) = Some 0.33 \<and>
   payment_of (amortization_schedule 1 0 3 1) \<noteq> Some (1 / of_int 3)"
  (is "?e \<and> _")
proof -
  have e: ?e
    by (simp add: amort_eval)
  show ?thesis
    unfolding e by (simp add: payment_of_def)
qed

text \<open>
  The clamp of the last period can lower the returned payment below the rounded
  \<open>principal / n\<close>: 0.0250000003 over 5 periods has a payment of 0.00500000006, cents
  0.01, but the balance before the last period has been rounded down to 0.0049999999,
  and the payment returned is 0.00.
\<close>

lemma clamped_payment_example:
  "payment_of (amortization_schedule (250000003 / 10 ^ 10) 0 5 1) = Some 0 \<and>
   py_round (250000003 / 10 ^ 10 / of_int 5) 2 = 0.01"
  by (simp add: payment_of_def amort_eval)

section \<open>Evaluated comparisons\<close>

lemma prepay_loop_unfold:
  "prepay_loop rp n_max st =
     (if 1 / 10000 < p_balance st \<and> p_period st < n_max
      then (if p_payment st - p_balance st * rp \<le> 0 then Inl InsufficientPaymentError
            else prepay_loop rp n_max (prepay_next rp st))
      else Inr st)"
  by (simp add: prepay_loop.simps [of rp n_max st] prepay_next_def Let_def)

lemmas prepay_eval =
  prepay_vs_invest_def invest_fv_def prepay_loop_unfold prepay_next_def
  InsufficientPaymentError_def summary_def amort_eval

text \<open>
  Claim C8: with a positive extra amount that does not fail, the payoff takes at most
  the baseline's number of periods. The code breaks it where the extra amount is smaller
  than what the rounding took from the baseline payment, because line 147 starts from
  \<^verbatim>\<open>base["payment"]\<close>, the payment rounded to cents for the result, and not from the
  payment the baseline schedule was computed with: 10000 at a zero rate in 3 payments
  over one year has a payment of 3333.33 after rounding; an extra 0.004 a month adds
  0.001 to each payment, three payments leave 0.007, and a fourth period pays it.
\<close>

theorem payoff_periods_failing_input:
  "map_sum id summary
     (prepay_vs_invest
        \<lparr>principal = 10000, annual_rate_pct = 0, years = 1, extra_monthly = 4 / 1000,
         payments_per_year = 3, invest_rate_pct = 5, inflation_pct = 0\<rparr>) =
     Inr \<lparr>s_base_periods = 3, s_base_payment = 3333.33, s_base_total_interest = 0,
          s_payoff_periods = 4, s_total_interest = 0, s_interest_saved = 0\<rparr>"
  by (simp add: prepay_eval)

text \<open>
  Claim C7: with a positive extra amount that does not fail, the interest saved is at
  least 0. The code breaks it in the same way, by reading the rounded fields of the
  baseline result (the payment at line 147, the total interest at line 175): 1000 at 10
  percent in three yearly payments has an annuity payment of 402.1148, returned as
  402.11; an extra 0.01 a month adds 0.00083 to a yearly payment, which stays below the
  annuity payment. The loan then needs a fourth period and pays 206.347 of interest
  against the baseline's reported 206.34, and the interest saved is reported as -0.01.
\<close>

theorem interest_saved_failing_input:
  "map_sum id summary
     (prepay_vs_invest
        \<lparr>principal = 1000, annual_rate_pct = 10, years = 3, extra_monthly = 1 / 100,
         payments_per_year = 1, invest_rate_pct = 5, inflation_pct = 0\<rparr>) =
     Inr \<lparr>s_base_periods = 3, s_base_payment = 402.11, s_base_total_interest = 206.34,
          s_payoff_periods = 4, s_total_interest = 206.35, s_interest_saved = - 0.01\<rparr>"
  by (simp add: prepay_eval)

section \<open>Properties of the float model\<close>

subsection \<open>The laws, and the exact arithmetic\<close>

lemma exact_ops_simps [simp]:
  "f_lit exact_ops = Fin" "f_inf exact_ops = PInf" "f_add exact_ops = x_add"
  "f_sub exact_ops = x_sub" "f_mul exact_ops = x_mul" "f_div exact_ops = x_div"
  "f_pow exact_ops = x_pow" "f_of_int exact_ops = (\<lambda>k. Inr (Fin (of_int k)))"
  "f_lt exact_ops = x_lt" "f_le exact_ops = x_le" "f_eq exact_ops = x_eq"
  "f_round exact_ops = x_round" "f_round_int exact_ops = x_round_int"
  by (simp_all add: exact_ops_def)

lemma x_pow_error: "x_pow x k = Inl e \<Longrightarrow> arithmetic_error e"
  by (cases x) (auto simp add: py_pow_def arithmetic_error_def split: if_splits sum.splits)

lemma x_round_int_error: "x_round_int x = Inl e \<Longrightarrow> arithmetic_error e"
  by (cases x) (auto simp add: arithmetic_error_def)

lemma exact_ops_laws: "float_laws exact_ops"
  unfolding float_laws_def not_below_zero_def
proof (intro conjI allI impI)
  fix x y e assume "f_div exact_ops x y = Inl e"
  then show "arithmetic_error e"
    by (simp add: x_div_def arithmetic_error_def split: if_splits)
next
  fix x k e assume "f_pow exact_ops x k = Inl e"
  then show "arithmetic_error e" by (simp add: x_pow_error)
next
  fix k e assume "f_of_int exact_ops k = Inl e"
  then show "arithmetic_error e" by simp
next
  fix x e assume "f_round_int exact_ops x = Inl e"
  then show "arithmetic_error e" by (simp add: x_round_int_error)
next
  fix x show "\<not> f_lt exact_ops x x" by (cases x) simp_all
next
  fix x assume "f_lt exact_ops (f_lit exact_ops 0) x"
  then show "\<not> f_lt exact_ops x (f_lit exact_ops 0)" by (cases x) simp_all
next
  fix x y assume "\<not> f_lt exact_ops x (f_lit exact_ops 0) \<and> \<not> f_lt exact_ops y (f_lit exact_ops 0)"
  then show "\<not> f_lt exact_ops (f_add exact_ops x y) (f_lit exact_ops 0)"
    by (cases x; cases y) simp_all
next
  fix x y assume "\<not> f_lt exact_ops x (f_lit exact_ops 0) \<and> \<not> f_lt exact_ops y (f_lit exact_ops 0)"
  then show "\<not> f_lt exact_ops (f_mul exact_ops x y) (f_lit exact_ops 0)"
    by (cases x; cases y) (auto simp add: x_signed_inf_def not_less mult_nonneg_nonneg)
next
  fix x d assume "\<not> f_lt exact_ops x (f_lit exact_ops 0)"
  then show "\<not> f_lt exact_ops (f_round exact_ops x d) (f_lit exact_ops 0)"
    by (cases x) (simp_all add: not_less py_round_nonneg)
next
  show "f_add exact_ops (f_lit exact_ops 0) (f_lit exact_ops 0) = f_lit exact_ops 0" by simp
next
  fix d show "f_round exact_ops (f_lit exact_ops 0) d = f_lit exact_ops 0" by simp
next
  fix x y d assume "\<not> f_lt exact_ops x y"
  then show "\<not> f_lt exact_ops (f_round exact_ops (f_sub exact_ops x y) d) (f_lit exact_ops 0)"
    by (cases x; cases y) (simp_all add: x_sub_def not_less py_round_nonneg)
next
  fix x y assume "f_lt exact_ops x y"
  then show "\<not> f_lt exact_ops (f_lit exact_ops (1 / 10000)) (f_sub exact_ops x x)"
    by (cases x; cases y) (simp_all add: x_sub_def)
next
  fix x y d assume "f_lt exact_ops x y \<and> \<not> f_lt exact_ops x (f_lit exact_ops 0)"
  then show "f_le exact_ops (f_round exact_ops (f_sub exact_ops x x) d) (f_lit exact_ops 0)"
    by (cases x; cases y) (simp_all add: x_sub_def)
qed

lemma float_lawsD:
  assumes "float_laws A"
  shows "f_div A x y = Inl e \<Longrightarrow> arithmetic_error e"
    and "f_pow A x k = Inl e \<Longrightarrow> arithmetic_error e"
    and "f_of_int A k = Inl e \<Longrightarrow> arithmetic_error e"
    and "f_round_int A x = Inl e \<Longrightarrow> arithmetic_error e"
    and "\<not> f_lt A x x"
    and "f_lt A (f_lit A 0) x \<Longrightarrow> not_below_zero A x"
    and "not_below_zero A x \<Longrightarrow> not_below_zero A y \<Longrightarrow> not_below_zero A (f_add A x y)"
    and "not_below_zero A x \<Longrightarrow> not_below_zero A y \<Longrightarrow> not_below_zero A (f_mul A x y)"
    and "not_below_zero A x \<Longrightarrow> not_below_zero A (f_round A x d)"
    and "f_add A (f_lit A 0) (f_lit A 0) = f_lit A 0"
    and "f_round A (f_lit A 0) d = f_lit A 0"
    and "\<not> f_lt A x y \<Longrightarrow> not_below_zero A (f_round A (f_sub A x y) d)"
    and "f_lt A x y \<Longrightarrow> \<not> f_lt A (f_lit A (1 / 10000)) (f_sub A x x)"
    and "f_lt A x y \<Longrightarrow> not_below_zero A x \<Longrightarrow> f_le A (f_round A (f_sub A x x) d) (f_lit A 0)"
proof -
  from assms have
    a: "\<forall>x y e. f_div A x y = Inl e \<longrightarrow> arithmetic_error e"
       "\<forall>x k e. f_pow A x k = Inl e \<longrightarrow> arithmetic_error e"
       "\<forall>k e. f_of_int A k = Inl e \<longrightarrow> arithmetic_error e"
       "\<forall>x e. f_round_int A x = Inl e \<longrightarrow> arithmetic_error e"
       "\<forall>x. \<not> f_lt A x x"
       "\<forall>x. f_lt A (f_lit A 0) x \<longrightarrow> not_below_zero A x"
       "\<forall>x y. not_below_zero A x \<and> not_below_zero A y \<longrightarrow> not_below_zero A (f_add A x y)"
       "\<forall>x y. not_below_zero A x \<and> not_below_zero A y \<longrightarrow> not_below_zero A (f_mul A x y)"
       "\<forall>x d. not_below_zero A x \<longrightarrow> not_below_zero A (f_round A x d)"
       "f_add A (f_lit A 0) (f_lit A 0) = f_lit A 0"
       "\<forall>d. f_round A (f_lit A 0) d = f_lit A 0"
       "\<forall>x y d. \<not> f_lt A x y \<longrightarrow> not_below_zero A (f_round A (f_sub A x y) d)"
       "\<forall>x y. f_lt A x y \<longrightarrow> \<not> f_lt A (f_lit A (1 / 10000)) (f_sub A x x)"
       "\<forall>x y d. f_lt A x y \<and> not_below_zero A x \<longrightarrow>
          f_le A (f_round A (f_sub A x x) d) (f_lit A 0)"
    unfolding float_laws_def by simp_all
  show "f_div A x y = Inl e \<Longrightarrow> arithmetic_error e" using a(1) by blast
  show "f_pow A x k = Inl e \<Longrightarrow> arithmetic_error e" using a(2) by blast
  show "f_of_int A k = Inl e \<Longrightarrow> arithmetic_error e" using a(3) by blast
  show "f_round_int A x = Inl e \<Longrightarrow> arithmetic_error e" using a(4) by blast
  show "\<not> f_lt A x x" using a(5) by blast
  show "f_lt A (f_lit A 0) x \<Longrightarrow> not_below_zero A x" using a(6) by blast
  show "not_below_zero A x \<Longrightarrow> not_below_zero A y \<Longrightarrow> not_below_zero A (f_add A x y)"
    using a(7) by blast
  show "not_below_zero A x \<Longrightarrow> not_below_zero A y \<Longrightarrow> not_below_zero A (f_mul A x y)"
    using a(8) by blast
  show "not_below_zero A x \<Longrightarrow> not_below_zero A (f_round A x d)" using a(9) by blast
  show "f_add A (f_lit A 0) (f_lit A 0) = f_lit A 0" using a(10) .
  show "f_round A (f_lit A 0) d = f_lit A 0" using a(11) by blast
  show "\<not> f_lt A x y \<Longrightarrow> not_below_zero A (f_round A (f_sub A x y) d)" using a(12) by blast
  show "f_lt A x y \<Longrightarrow> \<not> f_lt A (f_lit A (1 / 10000)) (f_sub A x x)" using a(13) by blast
  show "f_lt A x y \<Longrightarrow> not_below_zero A x \<Longrightarrow> f_le A (f_round A (f_sub A x x) d) (f_lit A 0)"
    using a(14) by blast
qed


subsection \<open>Tax calculation\<close>












text \<open>Evaluating the float model on the exact arithmetic.\<close>

lemmas exact_eval =
  x_sub_def x_div_def x_eq_def x_signed_inf_def py_min_def py_max_def py_pow_def
  Let_def power_divide literal_eval





subsection \<open>Loan amortization\<close>

lemma amort_loop_f_rule:
  assumes "I st"
    and fin: "\<And>st. I st \<Longrightarrow> Q st"
    and step: "\<And>i st. I st \<Longrightarrow>
       (f_le A (a_balance_f (amort_step_f A zr rp i st)) (f_lit A 0) \<longrightarrow>
          Q (amort_step_f A zr rp i st)) \<and>
       (\<not> f_le A (a_balance_f (amort_step_f A zr rp i st)) (f_lit A 0) \<longrightarrow>
          I (amort_step_f A zr rp i st))"
  shows "Q (amort_loop_f A zr rp n i st)"
  using assms(1)
proof (induction "nat (n + 1 - i)" arbitrary: i st)
  case 0
  then have "n < i" by simp
  then show ?case
    using fin [OF "0.prems"] by (simp add: amort_loop_f.simps)
next
  case (Suc k)
  then have le: "\<not> n < i" and k: "k = nat (n + 1 - (i + 1))" by simp_all
  show ?case
  proof (cases "f_le A (a_balance_f (amort_step_f A zr rp i st)) (f_lit A 0)")
    case True
    with step [OF Suc.prems, of i] le show ?thesis
      by (simp add: amort_loop_f.simps [of A zr rp n i st])
  next
    case False
    with step [OF Suc.prems, of i] have "I (amort_step_f A zr rp i st)" by simp
    from Suc.hyps(1) [OF k this] False le show ?thesis
      by (simp add: amort_loop_f.simps [of A zr rp n i st])
  qed
qed

lemma amort_step_f_nonempty: "a_schedule_f (amort_step_f A zr rp i st) \<noteq> []"
  by (simp add: amort_step_f_def Let_def)

lemma amort_loop_f_keeps_nonempty:
  "a_schedule_f st \<noteq> [] \<Longrightarrow> a_schedule_f (amort_loop_f A zr rp n i st) \<noteq> []"
  by (rule amort_loop_f_rule [where I = "\<lambda>st. a_schedule_f st \<noteq> []"])
    (simp_all add: amort_step_f_nonempty)

lemma amort_loop_f_nonempty:
  assumes "i \<le> n"
  shows "a_schedule_f (amort_loop_f A zr rp n i st) \<noteq> []"
proof -
  from assms have "\<not> n < i" by simp
  then have "amort_loop_f A zr rp n i st =
      (if f_le A (a_balance_f (amort_step_f A zr rp i st)) (f_lit A 0)
       then amort_step_f A zr rp i st
       else amort_loop_f A zr rp n (i + 1) (amort_step_f A zr rp i st))"
    by (subst amort_loop_f.simps) simp
  then show ?thesis
    by (simp add: amort_step_f_nonempty amort_loop_f_keeps_nonempty)
qed

lemma zero_rate_running_ended:
  "zero_rate_running A pay0 st \<Longrightarrow> zero_rate_ended A pay0 st"
  unfolding zero_rate_running_def zero_rate_ended_def
  by (auto dest: in_set_butlastD)

lemma zero_rate_step:
  assumes laws: "float_laws A" and inv: "zero_rate_running A pay0 st"
  shows "(f_le A (a_balance_f (amort_step_f A True rp i st)) (f_lit A 0) \<longrightarrow>
            zero_rate_ended A pay0 (amort_step_f A True rp i st)) \<and>
         (\<not> f_le A (a_balance_f (amort_step_f A True rp i st)) (f_lit A 0) \<longrightarrow>
            zero_rate_running A pay0 (amort_step_f A True rp i st))"
proof (cases "f_lt A (a_balance_f st) pay0")
  case False
  from inv have pay: "a_payment_f st = pay0" by (simp add: zero_rate_running_def)
  have nb: "not_below_zero A (f_round A (f_sub A (a_balance_f st) pay0) 10)"
    by (rule float_lawsD(12) [OF laws False])
  have "zero_rate_running A pay0 (amort_step_f A True rp i st)"
    using inv False nb
    by (simp add: zero_rate_running_def amort_step_f_def Let_def
        float_lawsD(10) [OF laws] float_lawsD(11) [OF laws])
  then show ?thesis
    by (simp add: zero_rate_running_ended)
next
  case True
  from inv have pay: "a_payment_f st = pay0" and nb: "not_below_zero A (a_balance_f st)"
    by (simp_all add: zero_rate_running_def)
  have le: "f_le A (a_balance_f (amort_step_f A True rp i st)) (f_lit A 0)"
    using float_lawsD(14) [OF laws True nb, of 10] True
    by (simp add: amort_step_f_def Let_def pay)
  have "zero_rate_ended A pay0 (amort_step_f A True rp i st)"
    using inv True
    by (auto simp add: zero_rate_running_def zero_rate_ended_def amort_step_f_def Let_def
        float_lawsD(10) [OF laws] float_lawsD(11) [OF laws])
  with le show ?thesis by simp
qed

lemma zero_rate_loop:
  assumes "float_laws A" and "zero_rate_running A pay0 st"
  shows "zero_rate_ended A pay0 (amort_loop_f A True rp n i st)"
  by (rule amort_loop_f_rule [where I = "zero_rate_running A pay0", OF assms(2)])
    (simp_all add: zero_rate_running_ended zero_rate_step [OF assms(1)])

text \<open>
  Claim C6, amended. Let the rate \<^verbatim>\<open>annual_rate_pct/100.0\<close> compare equal to 0 and the
  principal be above 0. In every result that \<open>amortization_schedule\<close> returns, the
  total interest is 0 and the interest of every period is 0. The payment is
  \<^verbatim>\<open>principal / n\<close> before rounding only: with at least one period, every entry but
  the last reports \<^verbatim>\<open>round(principal / n, 2)\<close>, the payment returned is the payment of
  the last entry, and it is \<^verbatim>\<open>round(principal / n, 2)\<close> unless the last period was
  clamped to a balance \<open>b\<close> below \<^verbatim>\<open>principal / n\<close>, in which case it is
  \<^verbatim>\<open>round(b + 0.0, 2)\<close>. With no period the schedule is empty and the payment
  returned is \<^verbatim>\<open>round(principal, 2)\<close>.
\<close>

theorem zero_rate_schedule:
  assumes "float_laws A"
    and "f_div A rate_pct (f_lit A 100) = Inr r"
    and "f_eq A r (f_lit A 0)"
    and "f_lt A (f_lit A 0) principal_amt"
    and "amortization_schedule_f A principal_amt rate_pct years_v ppy = Inr res"
  shows "amort_result_f.total_interest_f res = f_lit A 0 \<and>
         (\<forall>e\<in>set (schedule_f res). interest_paid_f e = f_lit A 0) \<and>
         (periods_f res \<le> 0 \<longrightarrow>
            schedule_f res = [] \<and>
            amort_result_f.payment_f res = f_round A principal_amt 2) \<and>
         (0 < periods_f res \<longrightarrow>
            (\<exists>pay0. div_int_f A principal_amt (periods_f res) = Inr pay0 \<and>
               schedule_f res \<noteq> [] \<and>
               (\<forall>e\<in>set (butlast (schedule_f res)).
                  sched_entry_f.payment_f e = f_round A pay0 2) \<and>
               amort_result_f.payment_f res = sched_entry_f.payment_f (last (schedule_f res)) \<and>
               (amort_result_f.payment_f res = f_round A pay0 2 \<or>
                (\<exists>b. f_lt A b pay0 \<and>
                     amort_result_f.payment_f res = f_round A (f_add A b (f_lit A 0)) 2 \<and>
                     principal_paid_f (last (schedule_f res)) = f_round A b 2))))"
proof -
  from assms(5) assms(2) obtain n where n: "period_count_f A years_v ppy = Inr n"
    by (cases "period_count_f A years_v ppy") (simp_all add: amortization_schedule_f_def)
  define st0 where "st0 pay = \<lparr>a_payment_f = pay, a_balance_f = principal_amt,
                               a_total_interest_f = f_lit A 0, a_schedule_f = []\<rparr>" for pay
  have nb: "not_below_zero A principal_amt"
    by (rule float_lawsD(6) [OF assms(1) assms(4)])
  have run: "zero_rate_running A pay (st0 pay)" for pay
    by (simp add: zero_rate_running_def st0_def nb)
  have fin: "\<And>pay. initial_payment_f A principal_amt r n ppy = Inr (pay, r) \<Longrightarrow>
      res = \<lparr>periods_f = n,
             payment_f = f_round A (a_payment_f (amort_loop_f A True r n 1 (st0 pay))) 2,
             total_interest_f = f_round A (a_total_interest_f (amort_loop_f A True r n 1 (st0 pay))) 2,
             schedule_f = a_schedule_f (amort_loop_f A True r n 1 (st0 pay))\<rparr>"
    using assms(5)
    by (simp add: amortization_schedule_f_def assms(2,3) n Let_def st0_def)
  show ?thesis
  proof (cases "0 < n")
    case False
    then have ip: "initial_payment_f A principal_amt r n ppy = Inr (principal_amt, r)"
      by (simp add: initial_payment_f_def assms(3))
    from False have l: "amort_loop_f A True r n 1 (st0 principal_amt) = st0 principal_amt"
      by (simp add: amort_loop_f.simps)
    from fin [OF ip] have
      "res = \<lparr>periods_f = n, payment_f = f_round A (a_payment_f (st0 principal_amt)) 2,
              total_interest_f = f_round A (a_total_interest_f (st0 principal_amt)) 2,
              schedule_f = a_schedule_f (st0 principal_amt)\<rparr>"
      unfolding l .
    with False show ?thesis
      by (simp add: st0_def float_lawsD(11) [OF assms(1)])
  next
    case True
    from assms(5) obtain pay0 where d: "div_int_f A principal_amt n = Inr pay0"
      by (cases "div_int_f A principal_amt n")
        (simp_all add: amortization_schedule_f_def assms(2,3) n initial_payment_f_def True)
    then have ip: "initial_payment_f A principal_amt r n ppy = Inr (pay0, r)"
      by (simp add: initial_payment_f_def assms(3) True)
    define st where "st = amort_loop_f A True r n 1 (st0 pay0)"
    have e: "zero_rate_ended A pay0 st"
      unfolding st_def by (rule zero_rate_loop [OF assms(1) run])
    have ne: "a_schedule_f st \<noteq> []"
      unfolding st_def using True by (intro amort_loop_f_nonempty) simp
    have res: "res = \<lparr>periods_f = n, payment_f = f_round A (a_payment_f st) 2,
                       total_interest_f = f_round A (a_total_interest_f st) 2,
                       schedule_f = a_schedule_f st\<rparr>"
      using fin [OF ip] by (simp add: st_def)
    from e ne have
      t: "a_total_interest_f st = f_lit A 0"
      and i: "\<forall>e\<in>set (a_schedule_f st). interest_paid_f e = f_lit A 0"
      and b: "\<forall>e\<in>set (butlast (a_schedule_f st)). sched_entry_f.payment_f e = f_round A pay0 2"
      and l: "sched_entry_f.payment_f (last (a_schedule_f st)) = f_round A (a_payment_f st) 2"
      and c: "a_payment_f st = pay0 \<or>
              (\<exists>b. f_lt A b pay0 \<and> a_payment_f st = f_add A b (f_lit A 0) \<and>
                   principal_paid_f (last (a_schedule_f st)) = f_round A b 2)"
      by (simp_all add: zero_rate_ended_def)
    from c have c': "f_round A (a_payment_f st) 2 = f_round A pay0 2 \<or>
              (\<exists>b. f_lt A b pay0 \<and> f_round A (a_payment_f st) 2 = f_round A (f_add A b (f_lit A 0)) 2 \<and>
                   principal_paid_f (last (a_schedule_f st)) = f_round A b 2)"
      by auto
    show ?thesis
      using True t i b l c' ne d
      by (simp add: res float_lawsD(11) [OF assms(1)])
  qed
qed

lemmas amort_f_eval =
  amortization_schedule_f_def period_count_f_def div_int_f_def initial_payment_f_def
  amort_loop_f.simps amort_step_f_def exact_eval

theorem zero_rate_schedule_witness:
  "f_div exact_ops (Fin 0) (f_lit exact_ops 100) = Inr (Fin 0) \<and>
   f_eq exact_ops (Fin 0) (f_lit exact_ops 0) \<and>
   f_lt exact_ops (f_lit exact_ops 0) (Fin 1) \<and>
   (\<exists>res. amortization_schedule_f exact_ops (Fin 1) (Fin 0) (Inr (Fin 3)) 1 = Inr res \<and>
      periods_f res = 3 \<and>
      amort_result_f.payment_f res = Fin (33 / 100) \<and>
      amort_result_f.total_interest_f res = Fin 0 \<and>
      map interest_paid_f (schedule_f res) = [Fin 0, Fin 0, Fin 0] \<and>
      map sched_entry_f.payment_f (schedule_f res) = [Fin (33 / 100), Fin (33 / 100), Fin (33 / 100)] \<and>
      div_int_f exact_ops (Fin 1) 3 = Inr (Fin (1 / 3)) \<and>
      f_round exact_ops (Fin (1 / 3)) 2 = Fin (33 / 100) \<and>
      amort_result_f.payment_f res = sched_entry_f.payment_f (last (schedule_f res)))"
proof -
  have h: "f_div exact_ops (Fin 0) (f_lit exact_ops 100) = Inr (Fin 0)"
    "f_eq exact_ops (Fin 0) (f_lit exact_ops 0)"
    "f_lt exact_ops (f_lit exact_ops 0) (Fin 1)"
    by (simp_all add: exact_eval)
  have e: "amortization_schedule_f exact_ops (Fin 1) (Fin 0) (Inr (Fin 3)) 1 =
    Inr \<lparr>periods_f = 3, payment_f = Fin (33 / 100), total_interest_f = Fin 0,
         schedule_f =
           [\<lparr>period_f = 1, payment_f = Fin (33 / 100), principal_paid_f = Fin (33 / 100),
             interest_paid_f = Fin 0, remaining_balance_f = Fin (67 / 100)\<rparr>,
            \<lparr>period_f = 2, payment_f = Fin (33 / 100), principal_paid_f = Fin (33 / 100),
             interest_paid_f = Fin 0, remaining_balance_f = Fin (33 / 100)\<rparr>,
            \<lparr>period_f = 3, payment_f = Fin (33 / 100), principal_paid_f = Fin (33 / 100),
             interest_paid_f = Fin 0, remaining_balance_f = Fin 0\<rparr>]\<rparr>"
    by (simp add: amort_f_eval)
  have d: "div_int_f exact_ops (Fin 1) 3 = Inr (Fin (1 / 3))"
    "f_round exact_ops (Fin (1 / 3)) 2 = Fin (33 / 100)"
    by (simp_all add: div_int_f_def exact_eval)
  from zero_rate_schedule [OF exact_ops_laws h e] h e d show ?thesis
    by simp
qed

subsection \<open>Prepay versus invest\<close>

lemma prepay_next_f_period [simp]:
  "p_period_f (prepay_next_f A rp st) = p_period_f st + 1"
  by (simp add: prepay_next_f_def Let_def)



lemma simulated_0 [simp]: "simulated A rp st 0 = st"
  by (simp add: simulated_def)



















end
